theory Spec2Isabelle
  imports Complex_Main
begin

section \<open>JavaScript values and errors\<close>

text \<open>
  The two clients of the repository, \<^verbatim>\<open>BookSearchApiClient.js\<close> (a class) and
  \<^verbatim>\<open>BookSearchApiClientFunctional.js\<close> (a standalone async function), are embedded
  as HOL functions. A promise that rejects with \<open>e\<close> is the value \<open>Inl e\<close>, one that
  resolves to \<open>v\<close> is \<open>Inr v\<close>; a synchronous \<^verbatim>\<open>throw\<close> is \<open>Inl\<close> as well.

  A number value is \<open>NaN\<close>, an infinity or a finite value. The rounding of a finite value
  to binary64 is the host's business (\<^verbatim>\<open>JSON.parse\<close>, \<^verbatim>\<open>Number\<close>, \<^verbatim>\<open>parseFloat\<close>) and
  is not modelled: the code under study never computes with numbers, it only passes them on.
\<close>

datatype jsnum = NaN | PosInfinity | NegInfinity | Finite rat

text \<open>
  The values that \<^verbatim>\<open>JSON.parse\<close> and the two \<^verbatim>\<open>parseXML\<close> functions can produce.
  An object is the list of its own properties in insertion order; a property whose value
  is \<open>JUndefined\<close> is present (\<^verbatim>\<open>{title: undefined}\<close> has the key \<^verbatim>\<open>title\<close>).
\<close>

datatype jsval =
    JUndefined
  | JNull
  | JBool bool
  | JNum jsnum
  | JStr string
  | JArr "jsval list"
  | JObj "(string \<times> jsval) list"

text \<open>
  An error object: its constructor and its \<^verbatim>\<open>message\<close>. The source only ever throws
  \<^verbatim>\<open>new Error(...)\<close>; the other three kinds are raised by the language itself or by the
  host. For those the kind is what the ECMAScript specification fixes; the message text
  is the engine's, and the wording given here is indicative.
\<close>

datatype error_name = Error | TypeError | ReferenceError | SyntaxError

datatype js_error = Thrown error_name string

fun name :: "js_error \<Rightarrow> error_name" where
  "name (Thrown n m) = n"

fun message :: "js_error \<Rightarrow> string" where
  "message (Thrown n m) = m"

section \<open>The host: fetch, JSON, DOMParser, Number, parseFloat\<close>

text \<open>
  A DOM tree as \<^verbatim>\<open>DOMParser.parseFromString(_, 'application/xml')\<close> returns it, reduced
  to what the source reads: element names, children in document order, character data.
\<close>

datatype xml_node =
    Element string "xml_node list"
  | Text string
  | Comment string

datatype dom_document = Document "xml_node list"

text \<open>
  A \<^verbatim>\<open>Response\<close>: the source reads \<^verbatim>\<open>response.ok\<close>, \<^verbatim>\<open>response.status\<close> and awaits
  \<^verbatim>\<open>response.text()\<close>, which may itself reject.
\<close>

record response =
  status :: nat
  body :: "js_error + string"

text \<open>The Fetch standard: \<^verbatim>\<open>ok\<close> is true exactly for a status in the range 200 to 299.\<close>

definition ok :: "response \<Rightarrow> bool" where
  "ok r = (200 \<le> status r \<and> status r \<le> 299)"

text \<open>
  Everything the source calls and does not define. \<open>fetch\<close> takes the URL and either rejects
  (network failure) or resolves to a response. \<open>JSON_parse\<close> throws on text that is not
  well-formed JSON. \<open>DOMParser_parseFromString\<close> stands for
  \<^verbatim>\<open>new DOMParser().parseFromString(s, 'application/xml')\<close>: \<open>Inl\<close> is whatever that
  expression throws (a missing \<^verbatim>\<open>DOMParser\<close> global under Node, a throwing xmldom),
  \<open>Inr\<close> the document it returns. \<open>Number_string\<close> and \<open>parseFloat_string\<close> are
  \<^verbatim>\<open>Number\<close> and \<^verbatim>\<open>parseFloat\<close> on a string argument.
\<close>

record host =
  fetch :: "string \<Rightarrow> js_error + response"
  JSON_parse :: "string \<Rightarrow> js_error + jsval"
  DOMParser_parseFromString :: "string \<Rightarrow> js_error + dom_document"
  Number_string :: "string \<Rightarrow> jsnum"
  parseFloat_string :: "string \<Rightarrow> jsnum"

text \<open>
  A \<^verbatim>\<open>textContent\<close> read through \<^verbatim>\<open>[0]?.\<close> is a string or, when there is no
  such element, \<^verbatim>\<open>undefined\<close> (\<open>None\<close>).
  \<^verbatim>\<open>Number(undefined)\<close> is \<^verbatim>\<open>NaN\<close>. \<^verbatim>\<open>parseFloat(undefined)\<close> converts its argument
  to the string \<^verbatim>\<open>"undefined"\<close>, which has no numeric prefix, so it is \<^verbatim>\<open>NaN\<close> too.
\<close>

fun text_value :: "string option \<Rightarrow> jsval" where
  "text_value None = JUndefined"
| "text_value (Some s) = JStr s"

fun js_Number :: "host \<Rightarrow> string option \<Rightarrow> jsnum" where
  "js_Number h None = NaN"
| "js_Number h (Some s) = Number_string h s"

fun js_parseFloat :: "host \<Rightarrow> string option \<Rightarrow> jsnum" where
  "js_parseFloat h None = NaN"
| "js_parseFloat h (Some s) = parseFloat_string h s"

subsection \<open>The DOM operations the source uses\<close>

fun is_element_named :: "string \<Rightarrow> xml_node \<Rightarrow> bool" where
  "is_element_named tag (Element n cs) = (n = tag)"
| "is_element_named tag (Text s) = False"
| "is_element_named tag (Comment s) = False"

text \<open>
  \<^verbatim>\<open>element.getElementsByTagName(tag)\<close>: the descendant elements of that name in tree
  order, the element itself excluded. The source passes literal names only, never \<^verbatim>\<open>'*'\<close>.
\<close>

fun getElementsByTagName :: "string \<Rightarrow> xml_node \<Rightarrow> xml_node list" where
  "getElementsByTagName tag (Element n cs) =
     concat (map (\<lambda>c. (if is_element_named tag c then [c] else []) @ getElementsByTagName tag c) cs)"
| "getElementsByTagName tag (Text s) = []"
| "getElementsByTagName tag (Comment s) = []"

text \<open>\<^verbatim>\<open>document.getElementsByTagName(tag)\<close>: the same over the whole document, root included.\<close>

fun document_getElementsByTagName :: "string \<Rightarrow> dom_document \<Rightarrow> xml_node list" where
  "document_getElementsByTagName tag (Document cs) =
     concat (map (\<lambda>c. (if is_element_named tag c then [c] else []) @ getElementsByTagName tag c) cs)"

text \<open>
  \<^verbatim>\<open>node.textContent\<close>: for an element the concatenated text of its descendants, comments
  left out; for a text or comment node its own data.
\<close>

fun is_comment :: "xml_node \<Rightarrow> bool" where
  "is_comment (Comment s) = True"
| "is_comment (Element n cs) = False"
| "is_comment (Text s) = False"

fun textContent :: "xml_node \<Rightarrow> string" where
  "textContent (Element n cs) = concat (map (\<lambda>c. if is_comment c then [] else textContent c) cs)"
| "textContent (Text s) = s"
| "textContent (Comment s) = s"

text \<open>\<^verbatim>\<open>bookNode.getElementsByTagName(tag)[0]?.textContent\<close>\<close>

definition first_textContent :: "string \<Rightarrow> xml_node \<Rightarrow> string option" where
  "first_textContent tag bookNode =
     (case getElementsByTagName tag bookNode of
        [] \<Rightarrow> None
      | n # rest \<Rightarrow> Some (textContent n))"

section \<open>Property access\<close>

text \<open>
  \<^verbatim>\<open>item.title\<close> and its four siblings. Reading a property of \<^verbatim>\<open>undefined\<close> or
  \<^verbatim>\<open>null\<close> throws a TypeError. On an object the own property is read; none of the five
  names the source reads exists on \<^verbatim>\<open>Object.prototype\<close>, \<^verbatim>\<open>Array.prototype\<close>,
  \<^verbatim>\<open>String.prototype\<close>, \<^verbatim>\<open>Number.prototype\<close> or \<^verbatim>\<open>Boolean.prototype\<close>, so every
  other read gives \<^verbatim>\<open>undefined\<close>.
\<close>

fun get_field :: "jsval \<Rightarrow> string \<Rightarrow> js_error + jsval" where
  "get_field JUndefined k =
     Inl (Thrown TypeError (''Cannot read properties of undefined (reading '' @ k @ '')''))"
| "get_field JNull k =
     Inl (Thrown TypeError (''Cannot read properties of null (reading '' @ k @ '')''))"
| "get_field (JObj kvs) k = Inr (case map_of kvs k of None \<Rightarrow> JUndefined | Some v \<Rightarrow> v)"
| "get_field v k = Inr JUndefined"

section \<open>normaliseData\<close>

text \<open>
  The arrow function passed to \<^verbatim>\<open>data.map\<close>: five property reads, in the order written,
  the first that throws ends the call.
\<close>

definition normaliseItem :: "jsval \<Rightarrow> js_error + jsval" where
  "normaliseItem item =
     (case get_field item ''title'' of Inl e \<Rightarrow> Inl e | Inr title \<Rightarrow>
     (case get_field item ''author'' of Inl e \<Rightarrow> Inl e | Inr author \<Rightarrow>
     (case get_field item ''isbn'' of Inl e \<Rightarrow> Inl e | Inr isbn \<Rightarrow>
     (case get_field item ''quantity'' of Inl e \<Rightarrow> Inl e | Inr quantity \<Rightarrow>
     (case get_field item ''price'' of Inl e \<Rightarrow> Inl e | Inr price \<Rightarrow>
        Inr (JObj [(''title'', title), (''author'', author), (''isbn'', isbn),
                   (''quantity'', quantity), (''price'', price)]))))))"

text \<open>\<^verbatim>\<open>Array.prototype.map\<close>: left to right, stopping at the first callback that throws.\<close>

fun map_items :: "(jsval \<Rightarrow> js_error + jsval) \<Rightarrow> jsval list \<Rightarrow> js_error + jsval list" where
  "map_items f [] = Inr []"
| "map_items f (x # xs) =
     (case f x of
        Inl e \<Rightarrow> Inl e
      | Inr y \<Rightarrow> (case map_items f xs of Inl e \<Rightarrow> Inl e | Inr ys \<Rightarrow> Inr (y # ys)))"

text \<open>
  \<^verbatim>\<open>normaliseData(data)\<close> of the class. \<^verbatim>\<open>data.map\<close> on \<^verbatim>\<open>undefined\<close> or \<^verbatim>\<open>null\<close>
  throws on the property read; on any other value that is not an array \<^verbatim>\<open>data.map\<close> is
  not a function (no value of \<open>jsval\<close> is), and calling it throws a TypeError.
\<close>

fun normaliseData :: "jsval \<Rightarrow> js_error + jsval" where
  "normaliseData (JArr items) =
     (case map_items normaliseItem items of Inl e \<Rightarrow> Inl e | Inr out \<Rightarrow> Inr (JArr out))"
| "normaliseData JUndefined =
     Inl (Thrown TypeError ''Cannot read properties of undefined (reading map)'')"
| "normaliseData JNull =
     Inl (Thrown TypeError ''Cannot read properties of null (reading map)'')"
| "normaliseData v = Inl (Thrown TypeError ''data.map is not a function'')"

text \<open>\<^verbatim>\<open>normaliseData\<close> of the functional module: the same text as the method.\<close>

fun normaliseData_fn :: "jsval \<Rightarrow> js_error + jsval" where
  "normaliseData_fn (JArr items) =
     (case map_items normaliseItem items of Inl e \<Rightarrow> Inl e | Inr out \<Rightarrow> Inr (JArr out))"
| "normaliseData_fn JUndefined =
     Inl (Thrown TypeError ''Cannot read properties of undefined (reading map)'')"
| "normaliseData_fn JNull =
     Inl (Thrown TypeError ''Cannot read properties of null (reading map)'')"
| "normaliseData_fn v = Inl (Thrown TypeError ''data.map is not a function'')"

section \<open>The parsers\<close>

type_synonym parser = "host \<Rightarrow> string \<Rightarrow> js_error + jsval"

text \<open>\<^verbatim>\<open>parseJSON\<close>, the same in both files: any throw of \<^verbatim>\<open>JSON.parse\<close> is rewrapped.\<close>

definition parseJSON :: parser where
  "parseJSON h jsonString =
     (case JSON_parse h jsonString of
        Inl error \<Rightarrow> Inl (Thrown Error (''JSON Parsing Error: '' @ message error))
      | Inr v \<Rightarrow> Inr v)"

definition parseJSON_fn :: parser where
  "parseJSON_fn h jsonString =
     (case JSON_parse h jsonString of
        Inl error \<Rightarrow> Inl (Thrown Error (''JSON Parsing Error: '' @ message error))
      | Inr v \<Rightarrow> Inr v)"

text \<open>\<^verbatim>\<open>parseXML\<close> of the class: all five fields are the text content as it is.\<close>

definition bookNode_record :: "xml_node \<Rightarrow> jsval" where
  "bookNode_record bookNode =
     JObj [(''title'', text_value (first_textContent ''title'' bookNode)),
           (''author'', text_value (first_textContent ''author'' bookNode)),
           (''isbn'', text_value (first_textContent ''isbn'' bookNode)),
           (''quantity'', text_value (first_textContent ''quantity'' bookNode)),
           (''price'', text_value (first_textContent ''price'' bookNode))]"

definition parseXML :: parser where
  "parseXML h xmlString =
     (case DOMParser_parseFromString h xmlString of
        Inl error \<Rightarrow> Inl (Thrown Error (''XML Parsing Error: '' @ message error))
      | Inr xml \<Rightarrow> Inr (JArr (map bookNode_record (document_getElementsByTagName ''book'' xml))))"

text \<open>
  \<^verbatim>\<open>parseXML\<close> of the functional module: \<^verbatim>\<open>quantity\<close> goes through \<^verbatim>\<open>Number\<close> and
  \<^verbatim>\<open>price\<close> through \<^verbatim>\<open>parseFloat\<close>.
\<close>

definition bookNode_record_fn :: "host \<Rightarrow> xml_node \<Rightarrow> jsval" where
  "bookNode_record_fn h bookNode =
     JObj [(''title'', text_value (first_textContent ''title'' bookNode)),
           (''author'', text_value (first_textContent ''author'' bookNode)),
           (''isbn'', text_value (first_textContent ''isbn'' bookNode)),
           (''quantity'', JNum (js_Number h (first_textContent ''quantity'' bookNode))),
           (''price'', JNum (js_parseFloat h (first_textContent ''price'' bookNode)))]"

definition parseXML_fn :: parser where
  "parseXML_fn h xmlString =
     (case DOMParser_parseFromString h xmlString of
        Inl error \<Rightarrow> Inl (Thrown Error (''XML Parsing Error: '' @ message error))
      | Inr xml \<Rightarrow>
          Inr (JArr (map (bookNode_record_fn h) (document_getElementsByTagName ''book'' xml))))"

section \<open>Looking a format up in the parser registry\<close>

text \<open>
  \<^verbatim>\<open>parsers[format]\<close> on an object literal: an own property wins; otherwise the lookup
  goes on to \<^verbatim>\<open>Object.prototype\<close>, whose property names are listed here; otherwise it
  is \<^verbatim>\<open>undefined\<close>.
\<close>

datatype 'a property = Own 'a | Inherited | Absent

definition Object_prototype_names :: "string list" where
  "Object_prototype_names =
     [''constructor'', ''hasOwnProperty'', ''isPrototypeOf'', ''propertyIsEnumerable'',
      ''toLocaleString'', ''toString'', ''valueOf'', ''__proto__'',
      ''__defineGetter__'', ''__defineSetter__'', ''__lookupGetter__'', ''__lookupSetter__'']"

definition lookup_property :: "(string \<times> 'a) list \<Rightarrow> string \<Rightarrow> 'a property" where
  "lookup_property obj key =
     (case map_of obj key of
        Some v \<Rightarrow> Own v
      | None \<Rightarrow> if key \<in> set Object_prototype_names then Inherited else Absent)"

text \<open>
  What \<^verbatim>\<open>await parser(rawData)\<close> gives when \<^verbatim>\<open>parser\<close> is the member of
  \<^verbatim>\<open>Object.prototype\<close> of the given name, called with \<^verbatim>\<open>this\<close> undefined:
  \<^verbatim>\<open>__proto__\<close> is the prototype object itself, not callable; \<^verbatim>\<open>constructor\<close> is
  \<^verbatim>\<open>Object\<close>, which wraps the string in a String object (written \<open>JStr\<close> here: like the
  primitive it has no \<^verbatim>\<open>map\<close> and none of the five fields); \<^verbatim>\<open>toString\<close> returns
  \<^verbatim>\<open>[object Undefined]\<close>; \<^verbatim>\<open>isPrototypeOf\<close> returns \<^verbatim>\<open>false\<close> for an argument
  that is not an object; the remaining eight convert \<^verbatim>\<open>this\<close> to an object first and
  throw. The message texts are indicative.
\<close>

definition call_Object_prototype_member :: "string \<Rightarrow> string \<Rightarrow> js_error + jsval" where
  "call_Object_prototype_member key rawData =
     (if key = ''__proto__'' then Inl (Thrown TypeError ''parser is not a function'')
      else if key = ''constructor'' then Inr (JStr rawData)
      else if key = ''toString'' then Inr (JStr ''[object Undefined]'')
      else if key = ''isPrototypeOf'' then Inr (JBool False)
      else Inl (Thrown TypeError ''Cannot convert undefined or null to object''))"

section \<open>Decimal text of a number in a template literal\<close>

definition digit_char :: "nat \<Rightarrow> char" where
  "digit_char d = ''0123456789'' ! d"

function string_of_nat :: "nat \<Rightarrow> string" where
  "string_of_nat n =
     (if n < 10 then [digit_char n] else string_of_nat (n div 10) @ [digit_char (n mod 10)])"
  by pat_completeness auto
termination
  by (relation "measure (\<lambda>n. n)") auto

declare string_of_nat.simps [simp del]

section \<open>Default parameters\<close>

text \<open>\<^verbatim>\<open>limit = 10\<close> and \<^verbatim>\<open>format = 'json'\<close>: the default applies to an omitted argument.\<close>

definition default_limit :: "nat option \<Rightarrow> nat" where
  "default_limit limit = (case limit of None \<Rightarrow> 10 | Some l \<Rightarrow> l)"

definition default_format :: "string option \<Rightarrow> string" where
  "default_format fmt = (case fmt of None \<Rightarrow> ''json'' | Some f \<Rightarrow> f)"

section \<open>The object-oriented client\<close>

text \<open>
  What a call does besides settling its promise: the request it issues, the registered
  parser it applies to a body, and what it writes with \<^verbatim>\<open>console.error\<close>.
\<close>

datatype event =
    Fetch string
  | ParserApplied string string
  | ConsoleError js_error

type_synonym outcome = "event list \<times> (js_error + jsval)"

record client =
  baseURL :: string
  format :: string
  parsers :: "(string \<times> parser) list"

text \<open>The constructor: \<^verbatim>\<open>format\<close> defaults to \<^verbatim>\<open>'json'\<close>; the \<^verbatim>\<open>csv\<close> entry is commented out.\<close>

definition BookSearchApiClient :: "string \<Rightarrow> string option \<Rightarrow> client" where
  "BookSearchApiClient url fmt =
     \<lparr> baseURL = url,
       format = default_format fmt,
       parsers = [(''json'', parseJSON), (''xml'', parseXML)] \<rparr>"

definition request_url :: "string \<Rightarrow> string \<Rightarrow> nat \<Rightarrow> string \<Rightarrow> string" where
  "request_url base authorName limit fmt =
     base @ ''/by-author?q='' @ authorName @ ''&limit='' @ string_of_nat limit @ ''&format='' @ fmt"

text \<open>
  The body of the \<^verbatim>\<open>try\<close> block of \<^verbatim>\<open>getBooksByAuthor\<close>.

  When \<^verbatim>\<open>this.parsers[this.format]\<close> finds a property inherited from
  \<^verbatim>\<open>Object.prototype\<close>, the value is truthy, the guard \<^verbatim>\<open>!parser\<close> lets it through and
  \<^verbatim>\<open>parser(rawData)\<close> calls it; what it returns goes to \<^verbatim>\<open>normaliseData\<close>. No
  registered parser sees the body in that case.
\<close>

definition getBooksByAuthor_try :: "host \<Rightarrow> client \<Rightarrow> string \<Rightarrow> nat \<Rightarrow> outcome" where
  "getBooksByAuthor_try h this authorName limit =
     (let url = request_url (baseURL this) authorName limit (format this) in
      case fetch h url of
        Inl e \<Rightarrow> ([Fetch url], Inl e)
      | Inr response \<Rightarrow>
          if \<not> ok response then
            ([Fetch url],
             Inl (Thrown Error (''Request failed with status '' @ string_of_nat (status response))))
          else
            (case body response of
               Inl e \<Rightarrow> ([Fetch url], Inl e)
             | Inr rawData \<Rightarrow>
                 (case lookup_property (parsers this) (format this) of
                    Absent \<Rightarrow>
                      ([Fetch url], Inl (Thrown Error (''Unsupported format: '' @ format this)))
                  | Inherited \<Rightarrow>
                      (case call_Object_prototype_member (format this) rawData of
                         Inl e \<Rightarrow> ([Fetch url], Inl e)
                       | Inr data \<Rightarrow> ([Fetch url], normaliseData data))
                  | Own parser \<Rightarrow>
                      (case parser h rawData of
                         Inl e \<Rightarrow> ([Fetch url, ParserApplied (format this) rawData], Inl e)
                       | Inr data \<Rightarrow>
                           ([Fetch url, ParserApplied (format this) rawData],
                            normaliseData data)))))"

text \<open>The \<^verbatim>\<open>catch\<close> block: log the error, throw it again unchanged.\<close>

fun log_and_rethrow :: "outcome \<Rightarrow> outcome" where
  "log_and_rethrow (trace, Inl error) = (trace @ [ConsoleError error], Inl error)"
| "log_and_rethrow (trace, Inr v) = (trace, Inr v)"

text \<open>\<^verbatim>\<open>getBooksByAuthor(authorName, limit = 10)\<close>: an omitted limit is \<open>None\<close>.\<close>

definition getBooksByAuthor :: "host \<Rightarrow> client \<Rightarrow> string \<Rightarrow> nat option \<Rightarrow> outcome" where
  "getBooksByAuthor h this authorName limit =
     log_and_rethrow (getBooksByAuthor_try h this authorName (default_limit limit))"

section \<open>The functional client\<close>

text \<open>
  The bindings of parser type that \<^verbatim>\<open>BookSearchApiClientFunctional.js\<close> declares. Its
  other two declarations are \<^verbatim>\<open>fetchBooksByAuthor\<close> and \<^verbatim>\<open>normaliseData\<close>; the
  declaration of \<^verbatim>\<open>parseCSV\<close> is inside a comment, and no global of that name exists
  in a browser or in Node.
\<close>

definition module_scope :: "(string \<times> parser) list" where
  "module_scope = [(''parseJSON'', parseJSON_fn), (''parseXML'', parseXML_fn)]"

text \<open>Evaluating an identifier: an unresolvable reference throws a ReferenceError.\<close>

definition resolve_identifier :: "string \<Rightarrow> js_error + parser" where
  "resolve_identifier x =
     (case map_of module_scope x of
        None \<Rightarrow> Inl (Thrown ReferenceError (x @ '' is not defined''))
      | Some f \<Rightarrow> Inr f)"

text \<open>
  The object literal \<^verbatim>\<open>{ json: parseJSON, xml: parseXML, csv: parseCSV }\<close>, its three
  property values evaluated in order.
\<close>

definition parsers_fn :: "js_error + (string \<times> parser) list" where
  "parsers_fn =
     (case resolve_identifier ''parseJSON'' of Inl e \<Rightarrow> Inl e | Inr json \<Rightarrow>
     (case resolve_identifier ''parseXML'' of Inl e \<Rightarrow> Inl e | Inr xml \<Rightarrow>
     (case resolve_identifier ''parseCSV'' of Inl e \<Rightarrow> Inl e | Inr csv \<Rightarrow>
        Inr [(''json'', json), (''xml'', xml), (''csv'', csv)])))"

text \<open>The body of the \<^verbatim>\<open>try\<close> block of \<^verbatim>\<open>fetchBooksByAuthor\<close>, given the registry.\<close>

definition fetchBooksByAuthor_try ::
  "host \<Rightarrow> (string \<times> parser) list \<Rightarrow> string \<Rightarrow> string \<Rightarrow> nat \<Rightarrow> string \<Rightarrow> outcome" where
  "fetchBooksByAuthor_try h registry base authorName limit fmt =
     (let url = request_url base authorName limit fmt in
      case fetch h url of
        Inl e \<Rightarrow> ([Fetch url], Inl e)
      | Inr response \<Rightarrow>
          if \<not> ok response then
            ([Fetch url],
             Inl (Thrown Error (''Request failed with status '' @ string_of_nat (status response))))
          else
            (case body response of
               Inl e \<Rightarrow> ([Fetch url], Inl e)
             | Inr rawData \<Rightarrow>
                 (case lookup_property registry fmt of
                    Absent \<Rightarrow> ([Fetch url], Inl (Thrown Error (''Unsupported format: '' @ fmt)))
                  | Inherited \<Rightarrow>
                      (case call_Object_prototype_member fmt rawData of
                         Inl e \<Rightarrow> ([Fetch url], Inl e)
                       | Inr data \<Rightarrow> ([Fetch url], normaliseData_fn data))
                  | Own parser \<Rightarrow>
                      (case parser h rawData of
                         Inl e \<Rightarrow> ([Fetch url, ParserApplied fmt rawData], Inl e)
                       | Inr data \<Rightarrow>
                           ([Fetch url, ParserApplied fmt rawData], normaliseData_fn data)))))"

text \<open>
  \<^verbatim>\<open>fetchBooksByAuthor({ baseURL, authorName, limit = 10, format = 'json' })\<close>. The
  registry is built before the \<^verbatim>\<open>try\<close>: if that throws, nothing is fetched and nothing
  is logged, and the promise of the async function rejects with what was thrown.
\<close>

definition fetchBooksByAuthor ::
  "host \<Rightarrow> string \<Rightarrow> string \<Rightarrow> nat option \<Rightarrow> string option \<Rightarrow> outcome" where
  "fetchBooksByAuthor h base authorName limit fmt =
     (case parsers_fn of
        Inl e \<Rightarrow> ([], Inl e)
      | Inr registry \<Rightarrow>
          log_and_rethrow
            (fetchBooksByAuthor_try h registry base authorName
               (default_limit limit) (default_format fmt)))"

section \<open>Vocabulary of the properties\<close>

text \<open>A record is an object; an array of records is what the normaliser is meant for.\<close>

definition is_record :: "jsval \<Rightarrow> bool" where
  "is_record v = (case v of JObj kvs \<Rightarrow> True | _ \<Rightarrow> False)"

definition is_array :: "jsval \<Rightarrow> bool" where
  "is_array v = (case v of JArr items \<Rightarrow> True | _ \<Rightarrow> False)"

definition canonical_fields :: "string list" where
  "canonical_fields = [''title'', ''author'', ''isbn'', ''quantity'', ''price'']"

text \<open>The value of an own property, \<^verbatim>\<open>undefined\<close> when the object has no such property.\<close>

definition own_or_undefined :: "(string \<times> jsval) list \<Rightarrow> string \<Rightarrow> jsval" where
  "own_or_undefined kvs k = (case map_of kvs k of None \<Rightarrow> JUndefined | Some v \<Rightarrow> v)"

text \<open>The five-field projection of a record, used to name the result in the proofs.\<close>

fun canonical :: "jsval \<Rightarrow> jsval" where
  "canonical (JObj kvs) = JObj (map (\<lambda>k. (k, own_or_undefined kvs k)) canonical_fields)"
| "canonical v = v"

text \<open>A number value that is a mathematical integer.\<close>

fun is_integer_number :: "jsval \<Rightarrow> bool" where
  "is_integer_number (JNum (Finite q)) = (q = of_int \<lfloor>q\<rfloor>)"
| "is_integer_number v = False"

fun is_number :: "jsval \<Rightarrow> bool" where
  "is_number (JNum n) = True"
| "is_number v = False"

text \<open>
  The failure kinds of the specification, read off the errors the source constructs: an
  unsupported format and a parse failure are an \<^verbatim>\<open>Error\<close> with a fixed message prefix;
  a TypeError is raised by the language.
\<close>

definition is_UnsupportedFormatError :: "string \<Rightarrow> js_error \<Rightarrow> bool" where
  "is_UnsupportedFormatError fmt e = (e = Thrown Error (''Unsupported format: '' @ fmt))"

definition is_ParseError :: "string \<Rightarrow> js_error \<Rightarrow> bool" where
  "is_ParseError label e =
     (name e = Error \<and> take (length label + 16) (message e) = label @ '' Parsing Error: '')"

definition is_TypeError :: "js_error \<Rightarrow> bool" where
  "is_TypeError e = (name e = TypeError)"

section \<open>The XML selection in the words of the specification\<close>

text \<open>Tree order (document order): a node, then its children's subtrees from left to right.\<close>

fun tree_order :: "xml_node \<Rightarrow> xml_node list" where
  "tree_order (Element n cs) = Element n cs # concat (map tree_order cs)"
| "tree_order (Text s) = [Text s]"
| "tree_order (Comment s) = [Comment s]"

fun children :: "xml_node \<Rightarrow> xml_node list" where
  "children (Element n cs) = cs"
| "children (Text s) = []"
| "children (Comment s) = []"

definition descendants :: "xml_node \<Rightarrow> xml_node list" where
  "descendants node = concat (map tree_order (children node))"

text \<open>Every element of a given name at any depth of the document, in document order.\<close>

fun spec_elements_at_any_depth :: "string \<Rightarrow> dom_document \<Rightarrow> xml_node list" where
  "spec_elements_at_any_depth tag (Document cs) =
     filter (is_element_named tag) (concat (map tree_order cs))"

text \<open>The text of the first \<^emph>\<open>child\<close> element of a given name: the specification as written.\<close>

definition spec_first_child_text :: "string \<Rightarrow> xml_node \<Rightarrow> string option" where
  "spec_first_child_text tag node =
     (case find (is_element_named tag) (children node) of
        None \<Rightarrow> None
      | Some c \<Rightarrow> Some (textContent c))"

text \<open>
  The record of a book element in the words of the specification as written: each of the
  five fields from the first child element of that name, \<^verbatim>\<open>undefined\<close> when missing.
\<close>

definition spec_book_record :: "xml_node \<Rightarrow> jsval" where
  "spec_book_record book =
     JObj [(''title'', text_value (spec_first_child_text ''title'' book)),
           (''author'', text_value (spec_first_child_text ''author'' book)),
           (''isbn'', text_value (spec_first_child_text ''isbn'' book)),
           (''quantity'', text_value (spec_first_child_text ''quantity'' book)),
           (''price'', text_value (spec_first_child_text ''price'' book))]"

text \<open>The text of the first \<^emph>\<open>descendant\<close> element of a given name, in document order.\<close>

definition spec_first_descendant_text :: "string \<Rightarrow> xml_node \<Rightarrow> string option" where
  "spec_first_descendant_text tag node =
     (case find (is_element_named tag) (descendants node) of
        None \<Rightarrow> None
      | Some c \<Rightarrow> Some (textContent c))"

section \<open>Example inputs\<close>

definition example_items :: "jsval list" where
  "example_items =
     [JObj [(''isbn'', JStr ''111''), (''title'', JStr ''Hamlet''), (''shelf'', JStr ''A3''),
            (''quantity'', JNum (Finite 3))],
      JObj []]"

text \<open>
  One book whose first \<^verbatim>\<open>title\<close> in document order is a grandchild, whose quantity is
  not a whole number and which has no \<^verbatim>\<open>price\<close>.
\<close>

definition example_xml :: string where
  "example_xml =
     ''<books><book><series><title>Histories</title></series><title>Henry V</title><quantity>3.5</quantity></book></books>''"

definition example_book :: xml_node where
  "example_book =
     Element ''book''
       [Element ''series'' [Element ''title'' [Text ''Histories'']],
        Element ''title'' [Text ''Henry V''],
        Element ''quantity'' [Text ''3.5'']]"

definition example_document :: dom_document where
  "example_document = Document [Element ''books'' [example_book]]"

text \<open>
  A host that answers every request with the given response. Its builtins are tables that
  agree with the real ones on the texts the examples use: \<^verbatim>\<open>JSON.parse\<close> reads
  \<^verbatim>\<open>[]\<close> and \<^verbatim>\<open>{}\<close> and throws a SyntaxError on \<^verbatim>\<open>{not valid\<close>; the DOM parser
  reads \<open>example_xml\<close>; \<^verbatim>\<open>Number\<close> and \<^verbatim>\<open>parseFloat\<close> read \<^verbatim>\<open>3.5\<close>.
\<close>

definition example_host :: "response \<Rightarrow> host" where
  "example_host r =
     \<lparr> fetch = (\<lambda>url. Inr r),
       JSON_parse = (\<lambda>s. if s = ''[]'' then Inr (JArr [])
                          else if s = ''{}'' then Inr (JObj [])
                          else Inl (Thrown SyntaxError ''Unexpected token'')),
       DOMParser_parseFromString = (\<lambda>s. if s = example_xml then Inr example_document
                          else Inl (Thrown Error ''not an example document'')),
       Number_string = (\<lambda>s. if s = ''3.5'' then Finite (7 / 2) else NaN),
       parseFloat_string = (\<lambda>s. if s = ''3.5'' then Finite (7 / 2) else NaN) \<rparr>"

definition example_base :: string where
  "example_base = ''http://api.example.com''"

definition response_with :: "nat \<Rightarrow> string \<Rightarrow> response" where
  "response_with st txt = \<lparr> status = st, body = Inr txt \<rparr>"

text \<open>The example host serving the example document.\<close>

definition example_xml_host :: host where
  "example_xml_host = example_host (response_with 200 example_xml)"

definition example_url :: "string \<Rightarrow> string" where
  "example_url fmt = ''http://api.example.com/by-author?q=Shakespeare&limit=10&format='' @ fmt"

section \<open>The normaliser\<close>

lemma normaliseItem_record:
  "normaliseItem (JObj kvs) = Inr (JObj (map (\<lambda>k. (k, own_or_undefined kvs k)) canonical_fields))"
  by (simp add: normaliseItem_def canonical_fields_def own_or_undefined_def)

lemma is_record_cases: "is_record v \<Longrightarrow> \<exists>kvs. v = JObj kvs"
  by (cases v) (simp_all add: is_record_def)

lemma map_items_records:
  "list_all is_record items \<Longrightarrow> map_items normaliseItem items = Inr (map canonical items)"
proof (induction items)
  case Nil
  show ?case by simp
next
  case (Cons x xs)
  from Cons.prems obtain kvs where x: "x = JObj kvs"
    using is_record_cases by auto
  from Cons have "map_items normaliseItem xs = Inr (map canonical xs)" by simp
  with x show ?case by (simp add: normaliseItem_record)
qed

lemma canonical_is_record: "is_record v \<Longrightarrow> is_record (canonical v)"
  by (cases v) (simp_all add: is_record_def)

lemma canonical_idem: "canonical (canonical v) = canonical v"
  by (cases v) (simp_all add: canonical_fields_def own_or_undefined_def)

lemma canonical_record_fields:
  "canonical (JObj kvs) = JObj props \<Longrightarrow>
     map fst props = canonical_fields \<and>
     (\<forall>k \<in> set canonical_fields. map_of props k = Some (own_or_undefined kvs k))"
  by (auto simp add: canonical_fields_def)

lemma example_items_records: "list_all is_record example_items"
  by (simp add: example_items_def is_record_def)

text \<open>
  Claim C5. On an array of records both \<^verbatim>\<open>normaliseData\<close> functions return an array of
  the same length; the record at each position of the output has exactly the keys
  \<^verbatim>\<open>title\<close>, \<^verbatim>\<open>author\<close>, \<^verbatim>\<open>isbn\<close>, \<^verbatim>\<open>quantity\<close>, \<^verbatim>\<open>price\<close>, in that order,
  each with the value the input record at the same position has under that key, or
  \<^verbatim>\<open>undefined\<close> when the input record has no such key. Other keys of the input do not
  appear in the output.
\<close>

theorem normaliseData_projects_five_fields:
  assumes "list_all is_record items"
  shows "\<exists>out. normaliseData (JArr items) = Inr (JArr out) \<and>
           normaliseData_fn (JArr items) = Inr (JArr out) \<and>
           length out = length items \<and>
           (\<forall>i < length items. \<exists>kvs props.
               items ! i = JObj kvs \<and> out ! i = JObj props \<and>
               map fst props = canonical_fields \<and>
               (\<forall>k \<in> set canonical_fields. map_of props k = Some (own_or_undefined kvs k)))"
proof -
  let ?out = "map canonical items"
  have run: "map_items normaliseItem items = Inr ?out"
    using assms by (rule map_items_records)
  have each: "\<exists>kvs props. items ! i = JObj kvs \<and> ?out ! i = JObj props \<and>
               map fst props = canonical_fields \<and>
               (\<forall>k \<in> set canonical_fields. map_of props k = Some (own_or_undefined kvs k))"
    if "i < length items" for i
  proof -
    from assms that have "is_record (items ! i)"
      by (simp add: list_all_length)
    then obtain kvs where kvs: "items ! i = JObj kvs"
      using is_record_cases by auto
    obtain props where props: "canonical (JObj kvs) = JObj props"
      by simp
    from canonical_record_fields [OF props] kvs props that show ?thesis
      by simp
  qed
  from run each show ?thesis by simp
qed

theorem normaliseData_projects_five_fields_witness:
  "list_all is_record example_items \<and>
   (\<exists>out. normaliseData (JArr example_items) = Inr (JArr out) \<and>
           normaliseData_fn (JArr example_items) = Inr (JArr out) \<and>
           length out = length example_items \<and>
           (\<forall>i < length example_items. \<exists>kvs props.
               example_items ! i = JObj kvs \<and> out ! i = JObj props \<and>
               map fst props = canonical_fields \<and>
               (\<forall>k \<in> set canonical_fields. map_of props k = Some (own_or_undefined kvs k))))"
  by (rule conjI [OF example_items_records
        normaliseData_projects_five_fields [OF example_items_records]])

text \<open>
  Claim C6. Normalising an array of records and normalising the result again gives the
  result of the first normalisation, for the method and for the module function alike.
\<close>

theorem normaliseData_idempotent:
  assumes "list_all is_record x"
  shows "\<exists>y. normaliseData (JArr x) = Inr y \<and> normaliseData y = Inr y \<and>
             normaliseData_fn (JArr x) = Inr y \<and> normaliseData_fn y = Inr y"
proof -
  let ?y = "map canonical x"
  have first: "map_items normaliseItem x = Inr ?y"
    using assms by (rule map_items_records)
  have "list_all is_record ?y"
    using assms by (simp add: list_all_length canonical_is_record)
  then have "map_items normaliseItem ?y = Inr (map canonical ?y)"
    by (rule map_items_records)
  then have second: "map_items normaliseItem ?y = Inr ?y"
    by (simp add: canonical_idem)
  from first second show ?thesis by simp
qed

theorem normaliseData_idempotent_witness:
  "list_all is_record example_items \<and>
   (\<exists>y. normaliseData (JArr example_items) = Inr y \<and> normaliseData y = Inr y \<and>
        normaliseData_fn (JArr example_items) = Inr y \<and> normaliseData_fn y = Inr y)"
  by (rule conjI [OF example_items_records normaliseData_idempotent [OF example_items_records]])

section \<open>The functional entry point\<close>

lemma parsers_fn_throws: "parsers_fn = Inl (Thrown ReferenceError ''parseCSV is not defined'')"
  by (simp add: parsers_fn_def resolve_identifier_def module_scope_def)

lemma fetchBooksByAuthor_throws:
  "fetchBooksByAuthor h base authorName limit fmt =
     ([], Inl (Thrown ReferenceError ''parseCSV is not defined''))"
  by (simp add: fetchBooksByAuthor_def parsers_fn_throws)

text \<open>
  Claim C2. Building the parser registry of \<^verbatim>\<open>fetchBooksByAuthor\<close> throws a
  ReferenceError for the undeclared identifier \<^verbatim>\<open>parseCSV\<close>. Hence every call, whatever
  the host, the arguments and the format, rejects with that ReferenceError, before any
  request is issued and outside the \<^verbatim>\<open>try\<close> block (nothing is logged); no call resolves.
\<close>

theorem fetchBooksByAuthor_always_ReferenceError:
  "parsers_fn = Inl (Thrown ReferenceError ''parseCSV is not defined'') \<and>
   fetchBooksByAuthor h base authorName limit fmt =
     ([], Inl (Thrown ReferenceError ''parseCSV is not defined'')) \<and>
   (\<forall>v. snd (fetchBooksByAuthor h base authorName limit fmt) \<noteq> Inr v)"
  by (simp add: fetchBooksByAuthor_throws parsers_fn_throws)

section \<open>The object-oriented entry point, stage by stage\<close>

lemma string_of_nat_10: "string_of_nat 10 = ''10''"
  by (simp add: string_of_nat.simps digit_char_def)

lemma string_of_nat_500: "string_of_nat 500 = ''500''"
  by (simp add: string_of_nat.simps digit_char_def)

lemma example_request_url:
  "request_url example_base ''Shakespeare'' 10 fmt = example_url fmt"
  by (simp add: request_url_def example_url_def example_base_def string_of_nat_10)

lemma default_limit_simps:
  "default_limit None = 10"
  "default_limit (Some n) = n"
  by (simp_all add: default_limit_def)

lemma response_with_simps:
  "status (response_with st txt) = st"
  "body (response_with st txt) = Inr txt"
  by (simp_all add: response_with_def)

lemma example_JSON_parse:
  "JSON_parse (example_host r) ''[]'' = Inr (JArr [])"
  "JSON_parse (example_host r) ''{}'' = Inr (JObj [])"
  "JSON_parse (example_host r) ''{not valid'' = Inl (Thrown SyntaxError ''Unexpected token'')"
  by (simp_all add: example_host_def)

lemma example_fetch: "fetch (example_host r) url = Inr r"
  by (simp add: example_host_def)

lemma client_fields:
  "baseURL (BookSearchApiClient base fmt) = base"
  "format (BookSearchApiClient base fmt) = default_format fmt"
  "parsers (BookSearchApiClient base fmt) = [(''json'', parseJSON), (''xml'', parseXML)]"
  by (simp_all add: BookSearchApiClient_def)

lemma getBooksByAuthor_fetch_rejects:
  assumes "fetch h (request_url (baseURL this) a (default_limit l) (format this)) = Inl e"
  shows "getBooksByAuthor h this a l =
           ([Fetch (request_url (baseURL this) a (default_limit l) (format this)), ConsoleError e],
            Inl e)"
  using assms by (simp add: getBooksByAuthor_def getBooksByAuthor_try_def Let_def)

lemma getBooksByAuthor_not_ok:
  assumes "fetch h (request_url (baseURL this) a (default_limit l) (format this)) = Inr r"
    and "\<not> ok r"
  shows "getBooksByAuthor h this a l =
           ([Fetch (request_url (baseURL this) a (default_limit l) (format this)),
             ConsoleError (Thrown Error (''Request failed with status '' @ string_of_nat (status r)))],
            Inl (Thrown Error (''Request failed with status '' @ string_of_nat (status r))))"
  using assms by (simp add: getBooksByAuthor_def getBooksByAuthor_try_def Let_def)

lemma getBooksByAuthor_body_rejects:
  assumes "fetch h (request_url (baseURL this) a (default_limit l) (format this)) = Inr r"
    and "ok r" and "body r = Inl e"
  shows "getBooksByAuthor h this a l =
           ([Fetch (request_url (baseURL this) a (default_limit l) (format this)), ConsoleError e],
            Inl e)"
  using assms by (simp add: getBooksByAuthor_def getBooksByAuthor_try_def Let_def)

lemma getBooksByAuthor_absent:
  assumes "fetch h (request_url (baseURL this) a (default_limit l) (format this)) = Inr r"
    and "ok r" and "body r = Inr raw"
    and "lookup_property (parsers this) (format this) = Absent"
  shows "getBooksByAuthor h this a l =
           ([Fetch (request_url (baseURL this) a (default_limit l) (format this)),
             ConsoleError (Thrown Error (''Unsupported format: '' @ format this))],
            Inl (Thrown Error (''Unsupported format: '' @ format this)))"
  using assms by (simp add: getBooksByAuthor_def getBooksByAuthor_try_def Let_def)

lemma normaliseData_inherited_result:
  "call_Object_prototype_member key raw = Inr d \<Longrightarrow>
     normaliseData d = Inl (Thrown TypeError ''data.map is not a function'')"
  by (auto simp add: call_Object_prototype_member_def split: if_splits)

lemma getBooksByAuthor_inherited:
  assumes "fetch h (request_url (baseURL this) a (default_limit l) (format this)) = Inr r"
    and "ok r" and "body r = Inr raw"
    and "lookup_property (parsers this) (format this) = Inherited"
  shows "\<exists>m. getBooksByAuthor h this a l =
           ([Fetch (request_url (baseURL this) a (default_limit l) (format this)),
             ConsoleError (Thrown TypeError m)],
            Inl (Thrown TypeError m))"
proof (cases "call_Object_prototype_member (format this) raw")
  case (Inl e)
  then have "e = Thrown TypeError ''parser is not a function'' \<or>
             e = Thrown TypeError ''Cannot convert undefined or null to object''"
    by (auto simp add: call_Object_prototype_member_def split: if_splits)
  with Inl assms show ?thesis
    by (auto simp add: getBooksByAuthor_def getBooksByAuthor_try_def Let_def)
next
  case (Inr d)
  with normaliseData_inherited_result [OF Inr] assms show ?thesis
    by (simp add: getBooksByAuthor_def getBooksByAuthor_try_def Let_def)
qed

lemma getBooksByAuthor_parser_rejects:
  assumes "fetch h (request_url (baseURL this) a (default_limit l) (format this)) = Inr r"
    and "ok r" and "body r = Inr raw"
    and "lookup_property (parsers this) (format this) = Own p"
    and "p h raw = Inl e"
  shows "getBooksByAuthor h this a l =
           ([Fetch (request_url (baseURL this) a (default_limit l) (format this)),
             ParserApplied (format this) raw, ConsoleError e],
            Inl e)"
  using assms by (simp add: getBooksByAuthor_def getBooksByAuthor_try_def Let_def)

lemma getBooksByAuthor_normalise_rejects:
  assumes "fetch h (request_url (baseURL this) a (default_limit l) (format this)) = Inr r"
    and "ok r" and "body r = Inr raw"
    and "lookup_property (parsers this) (format this) = Own p"
    and "p h raw = Inr d" and "normaliseData d = Inl e"
  shows "getBooksByAuthor h this a l =
           ([Fetch (request_url (baseURL this) a (default_limit l) (format this)),
             ParserApplied (format this) raw, ConsoleError e],
            Inl e)"
  using assms by (simp add: getBooksByAuthor_def getBooksByAuthor_try_def Let_def)

lemma getBooksByAuthor_resolves:
  assumes "fetch h (request_url (baseURL this) a (default_limit l) (format this)) = Inr r"
    and "ok r" and "body r = Inr raw"
    and "lookup_property (parsers this) (format this) = Own p"
    and "p h raw = Inr d" and "normaliseData d = Inr v"
  shows "getBooksByAuthor h this a l =
           ([Fetch (request_url (baseURL this) a (default_limit l) (format this)),
             ParserApplied (format this) raw],
            Inr v)"
  using assms by (simp add: getBooksByAuthor_def getBooksByAuthor_try_def Let_def)

lemma lookup_registered:
  "lookup_property [(''json'', parseJSON), (''xml'', parseXML)] ''json'' = Own parseJSON"
  "lookup_property [(''json'', parseJSON), (''xml'', parseXML)] ''xml'' = Own parseXML"
  by (simp_all add: lookup_property_def)

lemma lookup_unregistered:
  assumes "fmt \<noteq> ''json''" and "fmt \<noteq> ''xml''"
  shows "lookup_property [(''json'', parseJSON), (''xml'', parseXML)] fmt =
           (if fmt \<in> set Object_prototype_names then Inherited else Absent)"
  using assms by (simp add: lookup_property_def)

lemma log_and_rethrow_resolves:
  "log_and_rethrow (t, x) = (trace, Inr v) \<longleftrightarrow> t = trace \<and> x = Inr v"
  by (cases x) auto

lemma resolves_only_through_parser:
  assumes "getBooksByAuthor h this a l = (trace, Inr v)"
  shows "\<exists>r raw p d.
           fetch h (request_url (baseURL this) a (default_limit l) (format this)) = Inr r \<and>
           ok r \<and> body r = Inr raw \<and>
           lookup_property (parsers this) (format this) = Own p \<and>
           p h raw = Inr d \<and> normaliseData d = Inr v"
  using assms
  by (auto simp add: getBooksByAuthor_def getBooksByAuthor_try_def Let_def
           log_and_rethrow_resolves normaliseData_inherited_result
           split: sum.splits if_splits property.splits)


lemma never_resolves_unregistered:
  assumes "fmt \<noteq> ''json''" and "fmt \<noteq> ''xml''"
  shows "snd (getBooksByAuthor h (BookSearchApiClient base (Some fmt)) a l) \<noteq> Inr v"
proof
  assume "snd (getBooksByAuthor h (BookSearchApiClient base (Some fmt)) a l) = Inr v"
  then obtain trace where
    "getBooksByAuthor h (BookSearchApiClient base (Some fmt)) a l = (trace, Inr v)"
    by (cases "getBooksByAuthor h (BookSearchApiClient base (Some fmt)) a l") simp
  from resolves_only_through_parser [OF this] obtain p where
    "lookup_property (parsers (BookSearchApiClient base (Some fmt)))
       (format (BookSearchApiClient base (Some fmt))) = Own p"
    by blast
  with assms show False
    by (simp add: client_fields default_format_def lookup_unregistered split: if_splits)
qed

text \<open>
  Claim C4, as the class implements it. A client whose format is neither \<^verbatim>\<open>json\<close> nor
  \<^verbatim>\<open>xml\<close> (in particular \<^verbatim>\<open>csv\<close>) never resolves, whatever the host does. When the
  request is answered with a 2xx status and the body can be read, and the format is not
  the name of a property of \<^verbatim>\<open>Object.prototype\<close>, the call rejects with the error
  \<^verbatim>\<open>Unsupported format: <format>\<close>, whatever the body is; the request has been issued
  and no parser has been applied.
\<close>

theorem unsupported_format_rejects:
  assumes "fmt \<noteq> ''json''" and "fmt \<noteq> ''xml''"
  shows "(\<forall>v. snd (getBooksByAuthor h (BookSearchApiClient base (Some fmt)) a l) \<noteq> Inr v) \<and>
         (fetch h (request_url base a (default_limit l) fmt) = Inr r \<longrightarrow> ok r \<longrightarrow>
          body r = Inr raw \<longrightarrow> fmt \<notin> set Object_prototype_names \<longrightarrow>
            getBooksByAuthor h (BookSearchApiClient base (Some fmt)) a l =
              ([Fetch (request_url base a (default_limit l) fmt),
                ConsoleError (Thrown Error (''Unsupported format: '' @ fmt))],
               Inl (Thrown Error (''Unsupported format: '' @ fmt))))"
proof (intro conjI allI impI)
  fix v
  show "snd (getBooksByAuthor h (BookSearchApiClient base (Some fmt)) a l) \<noteq> Inr v"
    using assms by (rule never_resolves_unregistered)
next
  let ?c = "BookSearchApiClient base (Some fmt)"
  assume resp: "fetch h (request_url base a (default_limit l) fmt) = Inr r"
    and ok: "ok r" and raw: "body r = Inr raw"
    and own: "fmt \<notin> set Object_prototype_names"
  have fmt: "format ?c = fmt" and base: "baseURL ?c = base"
    by (simp_all add: client_fields default_format_def)
  have "lookup_property (parsers ?c) (format ?c) = Absent"
    using assms own by (simp add: client_fields default_format_def lookup_unregistered)
  from getBooksByAuthor_absent [of h ?c a l r raw, unfolded fmt base, OF resp ok raw] this
  show "getBooksByAuthor h ?c a l =
          ([Fetch (request_url base a (default_limit l) fmt),
            ConsoleError (Thrown Error (''Unsupported format: '' @ fmt))],
           Inl (Thrown Error (''Unsupported format: '' @ fmt)))"
    by (simp add: fmt)
qed


text \<open>The format \<^verbatim>\<open>csv\<close> with a 200 response.\<close>

theorem unsupported_format_rejects_witness:
  "''csv'' \<noteq> ''json'' \<and> ''csv'' \<noteq> ''xml'' \<and>
   fetch (example_host (response_with 200 ''title,author''))
     (request_url example_base ''Shakespeare'' (default_limit None) ''csv'') =
     Inr (response_with 200 ''title,author'') \<and>
   ok (response_with 200 ''title,author'') \<and>
   body (response_with 200 ''title,author'') = Inr ''title,author'' \<and>
   ''csv'' \<notin> set Object_prototype_names \<and>
   getBooksByAuthor (example_host (response_with 200 ''title,author''))
     (BookSearchApiClient example_base (Some ''csv'')) ''Shakespeare'' None =
     ([Fetch (example_url ''csv''), ConsoleError (Thrown Error ''Unsupported format: csv'')],
      Inl (Thrown Error ''Unsupported format: csv''))"
  using unsupported_format_rejects [where fmt = "''csv''"
      and h = "example_host (response_with 200 ''title,author'')"
      and base = example_base and a = "''Shakespeare''" and l = None
      and r = "response_with 200 ''title,author''" and raw = "''title,author''"]
  by (simp add: example_fetch ok_def response_with_simps Object_prototype_names_def
        default_limit_simps example_request_url)

text \<open>
  Claim C4 as stated fails: with format \<^verbatim>\<open>csv\<close> and a 500 response the class rejects
  with the request failure; with the format \<^verbatim>\<open>toString\<close>, which has no registered
  parser, it rejects with a TypeError; and the functional entry point rejects with the
  ReferenceError of its registry.
\<close>

theorem unsupported_format_counterexample:
  "snd (getBooksByAuthor (example_host (response_with 500 ''title,author''))
          (BookSearchApiClient example_base (Some ''csv'')) ''Shakespeare'' None) =
     Inl (Thrown Error ''Request failed with status 500'') \<and>
   \<not> is_UnsupportedFormatError ''csv'' (Thrown Error ''Request failed with status 500'') \<and>
   snd (getBooksByAuthor (example_host (response_with 200 ''title,author''))
          (BookSearchApiClient example_base (Some ''toString'')) ''Shakespeare'' None) =
     Inl (Thrown TypeError ''data.map is not a function'') \<and>
   \<not> is_UnsupportedFormatError ''toString'' (Thrown TypeError ''data.map is not a function'') \<and>
   snd (fetchBooksByAuthor (example_host (response_with 200 ''title,author''))
          example_base ''Shakespeare'' None (Some ''csv'')) =
     Inl (Thrown ReferenceError ''parseCSV is not defined'') \<and>
   \<not> is_UnsupportedFormatError ''csv'' (Thrown ReferenceError ''parseCSV is not defined'')"
proof -
  let ?c = "BookSearchApiClient example_base (Some ''csv'')"
  let ?t = "BookSearchApiClient example_base (Some ''toString'')"
  have "\<not> ok (response_with 500 ''title,author'')"
    by (simp add: ok_def response_with_simps)
  from getBooksByAuthor_not_ok [of "example_host (response_with 500 ''title,author'')" ?c
      "''Shakespeare''" None, OF example_fetch this]
  have first: "snd (getBooksByAuthor (example_host (response_with 500 ''title,author'')) ?c
                 ''Shakespeare'' None) = Inl (Thrown Error ''Request failed with status 500'')"
    by (simp add: response_with_simps string_of_nat_500)
  have "lookup_property (parsers ?t) (format ?t) = Inherited"
    by (simp add: client_fields default_format_def lookup_property_def Object_prototype_names_def)
  then have second:
    "snd (getBooksByAuthor (example_host (response_with 200 ''title,author'')) ?t
            ''Shakespeare'' None) = Inl (Thrown TypeError ''data.map is not a function'')"
    by (simp add: getBooksByAuthor_def getBooksByAuthor_try_def Let_def example_fetch ok_def
          response_with_simps client_fields default_format_def call_Object_prototype_member_def)
  from first second show ?thesis
    by (simp add: fetchBooksByAuthor_throws is_UnsupportedFormatError_def)
qed

lemma parseJSON_throws:
  "JSON_parse h raw = Inl cause \<Longrightarrow>
     parseJSON h raw = Inl (Thrown Error (''JSON Parsing Error: '' @ message cause))"
  by (simp add: parseJSON_def)

lemma parseJSON_returns: "JSON_parse h raw = Inr v \<Longrightarrow> parseJSON h raw = Inr v"
  by (simp add: parseJSON_def)

lemma is_ParseError_JSON: "is_ParseError ''JSON'' (Thrown Error (''JSON Parsing Error: '' @ m))"
  by (simp add: is_ParseError_def)

lemma json_client:
  assumes "default_format fmt = ''json''"
  shows "format (BookSearchApiClient base fmt) = ''json''"
    and "baseURL (BookSearchApiClient base fmt) = base"
    and "lookup_property (parsers (BookSearchApiClient base fmt)) ''json'' = Own parseJSON"
  using assms by (simp_all add: client_fields lookup_registered)

text \<open>
  Claim C7, as the class implements it. With format \<^verbatim>\<open>json\<close> (given or by default)
  and a response whose body is not well-formed JSON, \<^verbatim>\<open>getBooksByAuthor\<close> never
  resolves; when the status is 2xx it rejects with the error
  \<^verbatim>\<open>JSON Parsing Error: <cause>\<close>, after applying the JSON parser to the body.
\<close>

theorem malformed_json_rejects:
  assumes "default_format fmt = ''json''"
    and "fetch h (request_url base a (default_limit l) ''json'') = Inr r"
    and "body r = Inr raw"
    and "JSON_parse h raw = Inl cause"
  shows "(\<forall>v. snd (getBooksByAuthor h (BookSearchApiClient base fmt) a l) \<noteq> Inr v) \<and>
         (ok r \<longrightarrow>
            getBooksByAuthor h (BookSearchApiClient base fmt) a l =
              ([Fetch (request_url base a (default_limit l) ''json''),
                ParserApplied ''json'' raw,
                ConsoleError (Thrown Error (''JSON Parsing Error: '' @ message cause))],
               Inl (Thrown Error (''JSON Parsing Error: '' @ message cause))) \<and>
            is_ParseError ''JSON'' (Thrown Error (''JSON Parsing Error: '' @ message cause)))"
proof (intro conjI allI impI)
  let ?c = "BookSearchApiClient base fmt"
  note c = json_client [OF assms(1), of base]
  fix v
  show "snd (getBooksByAuthor h ?c a l) \<noteq> Inr v"
  proof
    assume "snd (getBooksByAuthor h ?c a l) = Inr v"
    then obtain trace where "getBooksByAuthor h ?c a l = (trace, Inr v)"
      by (cases "getBooksByAuthor h ?c a l") simp
    from resolves_only_through_parser [OF this, unfolded c] assms(2,3)
    obtain d where "parseJSON h raw = Inr d"
      by (auto simp add: c)
    with parseJSON_throws [OF assms(4)] show False
      by simp
  qed
next
  let ?c = "BookSearchApiClient base fmt"
  note c = json_client [OF assms(1), of base]
  assume ok: "ok r"
  from getBooksByAuthor_parser_rejects [of h ?c a l r raw parseJSON, unfolded c,
      OF assms(2) ok assms(3) refl parseJSON_throws [OF assms(4)]]
  show "getBooksByAuthor h ?c a l =
          ([Fetch (request_url base a (default_limit l) ''json''),
            ParserApplied ''json'' raw,
            ConsoleError (Thrown Error (''JSON Parsing Error: '' @ message cause))],
           Inl (Thrown Error (''JSON Parsing Error: '' @ message cause)))" .
next
  show "is_ParseError ''JSON'' (Thrown Error (''JSON Parsing Error: '' @ message cause))"
    by (rule is_ParseError_JSON)
qed

text \<open>The body \<^verbatim>\<open>{not valid\<close> with a 200 response.\<close>

theorem malformed_json_rejects_witness:
  "default_format None = ''json'' \<and>
   fetch (example_host (response_with 200 ''{not valid''))
     (request_url example_base ''Shakespeare'' (default_limit None) ''json'') =
     Inr (response_with 200 ''{not valid'') \<and>
   body (response_with 200 ''{not valid'') = Inr ''{not valid'' \<and>
   JSON_parse (example_host (response_with 200 ''{not valid'')) ''{not valid'' =
     Inl (Thrown SyntaxError ''Unexpected token'') \<and>
   ok (response_with 200 ''{not valid'') \<and>
   getBooksByAuthor (example_host (response_with 200 ''{not valid''))
     (BookSearchApiClient example_base None) ''Shakespeare'' None =
     ([Fetch (example_url ''json''), ParserApplied ''json'' ''{not valid'',
       ConsoleError (Thrown Error ''JSON Parsing Error: Unexpected token'')],
      Inl (Thrown Error ''JSON Parsing Error: Unexpected token''))"
  using malformed_json_rejects [where fmt = None
      and h = "example_host (response_with 200 ''{not valid'')"
      and base = example_base and a = "''Shakespeare''" and l = None
      and r = "response_with 200 ''{not valid''" and raw = "''{not valid''"
      and cause = "Thrown SyntaxError ''Unexpected token''"]
  by (simp add: example_fetch ok_def response_with_simps default_format_def
        default_limit_simps example_request_url example_JSON_parse)

text \<open>
  Claim C7 as stated fails: the same body with a 500 response makes the class reject with
  the request failure, which is not a parse error, and the functional entry point rejects
  with the ReferenceError of its registry even on a 200 response.
\<close>

theorem malformed_json_counterexample:
  "JSON_parse (example_host (response_with 500 ''{not valid'')) ''{not valid'' =
     Inl (Thrown SyntaxError ''Unexpected token'') \<and>
   snd (getBooksByAuthor (example_host (response_with 500 ''{not valid''))
          (BookSearchApiClient example_base (Some ''json'')) ''Shakespeare'' None) =
     Inl (Thrown Error ''Request failed with status 500'') \<and>
   \<not> is_ParseError ''JSON'' (Thrown Error ''Request failed with status 500'') \<and>
   snd (fetchBooksByAuthor (example_host (response_with 200 ''{not valid''))
          example_base ''Shakespeare'' None (Some ''json'')) =
     Inl (Thrown ReferenceError ''parseCSV is not defined'') \<and>
   \<not> is_ParseError ''JSON'' (Thrown ReferenceError ''parseCSV is not defined'')"
proof -
  let ?c = "BookSearchApiClient example_base (Some ''json'')"
  have "\<not> ok (response_with 500 ''{not valid'')"
    by (simp add: ok_def response_with_simps)
  from getBooksByAuthor_not_ok [of "example_host (response_with 500 ''{not valid'')" ?c
      "''Shakespeare''" None, OF example_fetch this]
  have "snd (getBooksByAuthor (example_host (response_with 500 ''{not valid'')) ?c
          ''Shakespeare'' None) = Inl (Thrown Error ''Request failed with status 500'')"
    by (simp add: response_with_simps string_of_nat_500)
  then show ?thesis
    by (simp add: fetchBooksByAuthor_throws is_ParseError_def example_JSON_parse)
qed


lemma normaliseData_non_array:
  "\<not> is_array v \<Longrightarrow> \<exists>m. normaliseData v = Inl (Thrown TypeError m)"
  by (cases v) (simp_all add: is_array_def)

text \<open>
  Claim C10, as the class implements it. With format \<^verbatim>\<open>json\<close>, a 2xx response and a
  body that is well-formed JSON whose value is not an array, \<^verbatim>\<open>parseJSON\<close> returns that
  value unchanged, \<^verbatim>\<open>normaliseData\<close> throws a TypeError on it, and \<^verbatim>\<open>getBooksByAuthor\<close>
  rejects with that TypeError, which is not a parse error.
\<close>

theorem non_array_json_rejects_with_TypeError:
  assumes "default_format fmt = ''json''"
    and "fetch h (request_url base a (default_limit l) ''json'') = Inr r"
    and "ok r"
    and "body r = Inr raw"
    and "JSON_parse h raw = Inr v"
    and "\<not> is_array v"
  shows "parseJSON h raw = Inr v \<and>
         (\<exists>e. is_TypeError e \<and> \<not> is_ParseError ''JSON'' e \<and>
              normaliseData v = Inl e \<and>
              getBooksByAuthor h (BookSearchApiClient base fmt) a l =
                ([Fetch (request_url base a (default_limit l) ''json''),
                  ParserApplied ''json'' raw, ConsoleError e],
                 Inl e))"
proof -
  let ?c = "BookSearchApiClient base fmt"
  note c = json_client [OF assms(1), of base]
  have parsed: "parseJSON h raw = Inr v"
    using assms(5) by (rule parseJSON_returns)
  from normaliseData_non_array [OF assms(6)] obtain m
    where thrown: "normaliseData v = Inl (Thrown TypeError m)" ..
  have kind: "is_TypeError (Thrown TypeError m)" "\<not> is_ParseError ''JSON'' (Thrown TypeError m)"
    by (simp_all add: is_TypeError_def is_ParseError_def)
  from getBooksByAuthor_normalise_rejects [of h ?c a l r raw parseJSON v "Thrown TypeError m",
      unfolded c, OF assms(2,3,4) refl parsed thrown]
  have "getBooksByAuthor h ?c a l =
          ([Fetch (request_url base a (default_limit l) ''json''),
            ParserApplied ''json'' raw, ConsoleError (Thrown TypeError m)],
           Inl (Thrown TypeError m))" .
  with parsed thrown kind show ?thesis
    by blast
qed

text \<open>The body \<^verbatim>\<open>{}\<close> with a 200 response.\<close>

theorem non_array_json_rejects_with_TypeError_witness:
  "default_format None = ''json'' \<and>
   fetch (example_host (response_with 200 ''{}''))
     (request_url example_base ''Shakespeare'' (default_limit None) ''json'') =
     Inr (response_with 200 ''{}'') \<and>
   ok (response_with 200 ''{}'') \<and>
   body (response_with 200 ''{}'') = Inr ''{}'' \<and>
   JSON_parse (example_host (response_with 200 ''{}'')) ''{}'' = Inr (JObj []) \<and>
   \<not> is_array (JObj []) \<and>
   parseJSON (example_host (response_with 200 ''{}'')) ''{}'' = Inr (JObj []) \<and>
   (\<exists>e. is_TypeError e \<and> \<not> is_ParseError ''JSON'' e \<and>
        normaliseData (JObj []) = Inl e \<and>
        getBooksByAuthor (example_host (response_with 200 ''{}''))
          (BookSearchApiClient example_base None) ''Shakespeare'' None =
          ([Fetch (example_url ''json''), ParserApplied ''json'' ''{}'', ConsoleError e], Inl e))"
  using non_array_json_rejects_with_TypeError [where fmt = None
      and h = "example_host (response_with 200 ''{}'')"
      and base = example_base and a = "''Shakespeare''" and l = None
      and r = "response_with 200 ''{}''" and raw = "''{}''" and v = "JObj []"]
  by (simp add: example_fetch ok_def response_with_simps default_format_def
        default_limit_simps example_request_url example_JSON_parse is_array_def)

text \<open>
  Claim C10 as stated fails: the body \<^verbatim>\<open>{}\<close> with a 500 response makes the call reject
  with the request failure, an \<^verbatim>\<open>Error\<close> and not a TypeError, before any parsing.
\<close>

theorem non_array_json_counterexample:
  "JSON_parse (example_host (response_with 500 ''{}'')) ''{}'' = Inr (JObj []) \<and>
   \<not> is_array (JObj []) \<and>
   snd (getBooksByAuthor (example_host (response_with 500 ''{}''))
          (BookSearchApiClient example_base (Some ''json'')) ''Shakespeare'' None) =
     Inl (Thrown Error ''Request failed with status 500'') \<and>
   \<not> is_TypeError (Thrown Error ''Request failed with status 500'')"
proof -
  let ?c = "BookSearchApiClient example_base (Some ''json'')"
  have "\<not> ok (response_with 500 ''{}'')"
    by (simp add: ok_def response_with_simps)
  from getBooksByAuthor_not_ok [of "example_host (response_with 500 ''{}'')" ?c
      "''Shakespeare''" None, OF example_fetch this]
  have "snd (getBooksByAuthor (example_host (response_with 500 ''{}'')) ?c
          ''Shakespeare'' None) = Inl (Thrown Error ''Request failed with status 500'')"
    by (simp add: response_with_simps string_of_nat_500)
  then show ?thesis
    by (simp add: is_TypeError_def is_array_def example_JSON_parse)
qed

text \<open>
  Claim C8 at a 500 response: the class rejects with \<^verbatim>\<open>Request failed with status 500\<close>
  and applies no parser, as claimed (lemma \<open>getBooksByAuthor_not_ok\<close> has it for every
  status outside 200 to 299); the functional entry point rejects with the ReferenceError
  of its registry instead, without having issued the request.
\<close>

theorem status_500_request_error_only_in_class:
  "\<not> ok (response_with 500 ''Internal Server Error'') \<and>
   getBooksByAuthor (example_host (response_with 500 ''Internal Server Error''))
     (BookSearchApiClient example_base (Some ''json'')) ''Shakespeare'' (Some 10) =
     ([Fetch (example_url ''json''),
       ConsoleError (Thrown Error ''Request failed with status 500'')],
      Inl (Thrown Error ''Request failed with status 500'')) \<and>
   fetchBooksByAuthor (example_host (response_with 500 ''Internal Server Error''))
     example_base ''Shakespeare'' (Some 10) (Some ''json'') =
     ([], Inl (Thrown ReferenceError ''parseCSV is not defined''))"
proof -
  let ?c = "BookSearchApiClient example_base (Some ''json'')"
  have failed: "\<not> ok (response_with 500 ''Internal Server Error'')"
    by (simp add: ok_def response_with_simps)
  from getBooksByAuthor_not_ok [of "example_host (response_with 500 ''Internal Server Error'')"
      ?c "''Shakespeare''" "Some 10", OF example_fetch this]
  have "getBooksByAuthor (example_host (response_with 500 ''Internal Server Error'')) ?c
          ''Shakespeare'' (Some 10) =
        ([Fetch (example_url ''json''),
          ConsoleError (Thrown Error ''Request failed with status 500'')],
         Inl (Thrown Error ''Request failed with status 500''))"
    by (simp add: response_with_simps string_of_nat_500 client_fields default_format_def
          default_limit_simps example_request_url)
  with failed show ?thesis
    by (simp add: fetchBooksByAuthor_throws)
qed

text \<open>
  Claim C1 at format \<^verbatim>\<open>json\<close> and a 200 response with body \<^verbatim>\<open>[]\<close>: the class resolves
  to the empty array, the functional entry point rejects with the ReferenceError of its
  registry.
\<close>

theorem entry_points_differ_on_empty_json_array:
  "getBooksByAuthor (example_host (response_with 200 ''[]''))
     (BookSearchApiClient example_base (Some ''json'')) ''Shakespeare'' (Some 10) =
     ([Fetch (example_url ''json''), ParserApplied ''json'' ''[]''], Inr (JArr [])) \<and>
   fetchBooksByAuthor (example_host (response_with 200 ''[]''))
     example_base ''Shakespeare'' (Some 10) (Some ''json'') =
     ([], Inl (Thrown ReferenceError ''parseCSV is not defined''))"
proof -
  let ?c = "BookSearchApiClient example_base (Some ''json'')"
  let ?h = "example_host (response_with 200 ''[]'')"
  note c = json_client [of "Some ''json''" example_base, simplified default_format_def, simplified]
  have "ok (response_with 200 ''[]'')"
    by (simp add: ok_def response_with_simps)
  from getBooksByAuthor_resolves [of ?h ?c "''Shakespeare''" "Some 10" _ "''[]''" parseJSON
      "JArr []" "JArr []", OF example_fetch this]
  have "getBooksByAuthor ?h ?c ''Shakespeare'' (Some 10) =
          ([Fetch (example_url ''json''), ParserApplied ''json'' ''[]''], Inr (JArr []))"
    by (simp add: c response_with_simps parseJSON_returns example_JSON_parse
          default_limit_simps example_request_url)
  then show ?thesis
    by (simp add: fetchBooksByAuthor_throws)
qed

section \<open>The XML parsers\<close>

lemma tree_order_descendants: "tree_order node = node # descendants node"
  by (cases node) (simp_all add: descendants_def)

lemma filter_tree_order:
  "filter (is_element_named tag) (tree_order c) =
     (if is_element_named tag c then [c] else []) @ filter (is_element_named tag) (descendants c)"
  by (simp add: tree_order_descendants)

lemma getElementsByTagName_descendants:
  "getElementsByTagName tag node = filter (is_element_named tag) (descendants node)"
proof (induction node)
  case (Element n cs)
  have "concat (map (\<lambda>c. (if is_element_named tag c then [c] else []) @
                         getElementsByTagName tag c) cs) =
        concat (map (\<lambda>c. filter (is_element_named tag) (tree_order c)) cs)"
    using Element.IH
    by (intro arg_cong [where f = concat] map_cong refl) (simp add: filter_tree_order)
  also have "\<dots> = filter (is_element_named tag) (concat (map tree_order cs))"
    by (simp add: filter_concat comp_def)
  finally show ?case
    by (simp add: descendants_def)
next
  case (Text s)
  show ?case by (simp add: descendants_def)
next
  case (Comment s)
  show ?case by (simp add: descendants_def)
qed

lemma document_getElementsByTagName_spec:
  "document_getElementsByTagName tag xml = spec_elements_at_any_depth tag xml"
proof (cases xml)
  case (Document cs)
  have "concat (map (\<lambda>c. (if is_element_named tag c then [c] else []) @
                         getElementsByTagName tag c) cs) =
        concat (map (\<lambda>c. filter (is_element_named tag) (tree_order c)) cs)"
    by (intro arg_cong [where f = concat] map_cong refl)
       (simp add: filter_tree_order getElementsByTagName_descendants)
  also have "\<dots> = filter (is_element_named tag) (concat (map tree_order cs))"
    by (simp add: filter_concat comp_def)
  finally show ?thesis
    using Document by simp
qed

lemma find_filter:
  "find P xs = (case filter P xs of [] \<Rightarrow> None | x # rest \<Rightarrow> Some x)"
  by (induction xs) simp_all

lemma first_textContent_spec:
  "first_textContent tag node = spec_first_descendant_text tag node"
  by (simp add: first_textContent_def spec_first_descendant_text_def find_filter
        getElementsByTagName_descendants split: list.split)

text \<open>
  Claim C9, as the code implements it. When the DOM parser returns a document, both
  \<^verbatim>\<open>parseXML\<close> functions return one record for each element named \<^verbatim>\<open>book\<close> at any
  depth, in document order. In the class every field is the text of the first
  \<^emph>\<open>descendant\<close> element of that name in document order, \<^verbatim>\<open>undefined\<close> when there is
  none. In the functional module \<^verbatim>\<open>title\<close>, \<^verbatim>\<open>author\<close> and \<^verbatim>\<open>isbn\<close> are the same,
  and \<^verbatim>\<open>quantity\<close> and \<^verbatim>\<open>price\<close> are \<^verbatim>\<open>Number\<close> and \<^verbatim>\<open>parseFloat\<close> of that text
  or \<^verbatim>\<open>undefined\<close>, a number in every case.
\<close>

theorem parseXML_selects_books_and_first_descendants:
  assumes "DOMParser_parseFromString h xmlString = Inr xml"
  shows "parseXML h xmlString =
           Inr (JArr (map (\<lambda>book.
                  JObj [(''title'', text_value (spec_first_descendant_text ''title'' book)),
                        (''author'', text_value (spec_first_descendant_text ''author'' book)),
                        (''isbn'', text_value (spec_first_descendant_text ''isbn'' book)),
                        (''quantity'', text_value (spec_first_descendant_text ''quantity'' book)),
                        (''price'', text_value (spec_first_descendant_text ''price'' book))])
                (spec_elements_at_any_depth ''book'' xml))) \<and>
         parseXML_fn h xmlString =
           Inr (JArr (map (\<lambda>book.
                  JObj [(''title'', text_value (spec_first_descendant_text ''title'' book)),
                        (''author'', text_value (spec_first_descendant_text ''author'' book)),
                        (''isbn'', text_value (spec_first_descendant_text ''isbn'' book)),
                        (''quantity'', JNum (js_Number h (spec_first_descendant_text ''quantity'' book))),
                        (''price'', JNum (js_parseFloat h (spec_first_descendant_text ''price'' book)))])
                (spec_elements_at_any_depth ''book'' xml)))"
  using assms
  by (simp add: parseXML_def parseXML_fn_def bookNode_record_def bookNode_record_fn_def
        document_getElementsByTagName_spec first_textContent_spec)

lemma example_DOMParser:
  "DOMParser_parseFromString example_xml_host example_xml = Inr example_document"
  by (simp add: example_xml_host_def example_host_def)

lemma example_books: "spec_elements_at_any_depth ''book'' example_document = [example_book]"
  by (simp add: example_document_def example_book_def)

lemma example_first_texts:
  "spec_first_descendant_text ''title'' example_book = Some ''Histories''"
  "spec_first_descendant_text ''author'' example_book = None"
  "spec_first_descendant_text ''isbn'' example_book = None"
  "spec_first_descendant_text ''quantity'' example_book = Some ''3.5''"
  "spec_first_descendant_text ''price'' example_book = None"
  by (simp_all add: spec_first_descendant_text_def example_book_def descendants_def)

lemma example_Number:
  "Number_string example_xml_host ''3.5'' = Finite (7 / 2)"
  "parseFloat_string example_xml_host ''3.5'' = Finite (7 / 2)"
  by (simp_all add: example_xml_host_def example_host_def)

lemma example_parseXML:
  "parseXML example_xml_host example_xml =
     Inr (JArr [JObj [(''title'', JStr ''Histories''), (''author'', JUndefined),
                      (''isbn'', JUndefined), (''quantity'', JStr ''3.5''),
                      (''price'', JUndefined)]])"
  by (simp add: parseXML_def example_DOMParser document_getElementsByTagName_spec example_books
        bookNode_record_def first_textContent_spec example_first_texts)

lemma example_parseXML_fn:
  "parseXML_fn example_xml_host example_xml =
     Inr (JArr [JObj [(''title'', JStr ''Histories''), (''author'', JUndefined),
                      (''isbn'', JUndefined), (''quantity'', JNum (Finite (7 / 2))),
                      (''price'', JNum NaN)]])"
  by (simp add: parseXML_fn_def example_DOMParser document_getElementsByTagName_spec example_books
        bookNode_record_fn_def first_textContent_spec example_first_texts example_Number)

text \<open>The example document: one book, the title taken from the grandchild.\<close>

theorem parseXML_selects_books_and_first_descendants_witness:
  "DOMParser_parseFromString example_xml_host example_xml = Inr example_document \<and>
   parseXML example_xml_host example_xml =
     Inr (JArr [JObj [(''title'', JStr ''Histories''), (''author'', JUndefined),
                      (''isbn'', JUndefined), (''quantity'', JStr ''3.5''),
                      (''price'', JUndefined)]]) \<and>
   parseXML_fn example_xml_host example_xml =
     Inr (JArr [JObj [(''title'', JStr ''Histories''), (''author'', JUndefined),
                      (''isbn'', JUndefined), (''quantity'', JNum (Finite (7 / 2))),
                      (''price'', JNum NaN)]])"
  using parseXML_selects_books_and_first_descendants [OF example_DOMParser]
  by (simp add: example_DOMParser example_books example_first_texts example_Number)

text \<open>
  Claim C9 as stated fails on the example book: its first \<^emph>\<open>child\<close> named \<^verbatim>\<open>title\<close>
  holds \<^verbatim>\<open>Henry V\<close>, the record gets \<^verbatim>\<open>Histories\<close> from the grandchild that precedes it
  in document order; and the missing \<^verbatim>\<open>price\<close> is \<^verbatim>\<open>NaN\<close>, not \<^verbatim>\<open>undefined\<close>, in the
  functional module.
\<close>

theorem parseXML_first_child_counterexample:
  "DOMParser_parseFromString example_xml_host example_xml = Inr example_document \<and>
   map spec_book_record (spec_elements_at_any_depth ''book'' example_document) =
     [JObj [(''title'', JStr ''Henry V''), (''author'', JUndefined),
            (''isbn'', JUndefined), (''quantity'', JStr ''3.5''),
            (''price'', JUndefined)]] \<and>
   parseXML example_xml_host example_xml =
     Inr (JArr [JObj [(''title'', JStr ''Histories''), (''author'', JUndefined),
                      (''isbn'', JUndefined), (''quantity'', JStr ''3.5''),
                      (''price'', JUndefined)]]) \<and>
   parseXML_fn example_xml_host example_xml =
     Inr (JArr [JObj [(''title'', JStr ''Histories''), (''author'', JUndefined),
                      (''isbn'', JUndefined), (''quantity'', JNum (Finite (7 / 2))),
                      (''price'', JNum NaN)]])"
proof -
  have "spec_book_record example_book =
          JObj [(''title'', JStr ''Henry V''), (''author'', JUndefined),
                (''isbn'', JUndefined), (''quantity'', JStr ''3.5''),
                (''price'', JUndefined)]"
    by (simp add: spec_book_record_def spec_first_child_text_def example_book_def)
  then show ?thesis
    by (simp add: example_DOMParser example_books example_parseXML example_parseXML_fn)
qed

lemma js_Number_case:
  "js_Number h x = (case x of None \<Rightarrow> NaN | Some t \<Rightarrow> Number_string h t)"
  by (cases x) simp_all

lemma js_parseFloat_case:
  "js_parseFloat h x = (case x of None \<Rightarrow> NaN | Some t \<Rightarrow> parseFloat_string h t)"
  by (cases x) simp_all

lemma bookNode_record_fn_numbers:
  "get_field (bookNode_record_fn h book) ''quantity'' =
     Inr (JNum (case first_textContent ''quantity'' book of
                  None \<Rightarrow> NaN | Some t \<Rightarrow> Number_string h t))"
  "get_field (bookNode_record_fn h book) ''price'' =
     Inr (JNum (case first_textContent ''price'' book of
                  None \<Rightarrow> NaN | Some t \<Rightarrow> parseFloat_string h t))"
  by (simp_all add: bookNode_record_fn_def js_Number_case js_parseFloat_case)

text \<open>
  Claim C3, as the functional module implements it. When the DOM parser returns a
  document, \<^verbatim>\<open>parseXML\<close> of the functional module returns one record per \<^verbatim>\<open>book\<close>
  element; its \<^verbatim>\<open>quantity\<close> is the number \<^verbatim>\<open>Number\<close> gives for the text and its
  \<^verbatim>\<open>price\<close> the number \<^verbatim>\<open>parseFloat\<close> gives for the text, \<^verbatim>\<open>NaN\<close> when the element
  is missing. Whatever number the coercion gives, \<^verbatim>\<open>NaN\<close> included, is in the record
  and the call does not fail.
\<close>

theorem parseXML_fn_coerces_quantity_and_price:
  assumes "DOMParser_parseFromString h xmlString = Inr xml"
  shows "\<exists>records.
           parseXML_fn h xmlString = Inr (JArr records) \<and>
           length records = length (document_getElementsByTagName ''book'' xml) \<and>
           (\<forall>i < length records.
              get_field (records ! i) ''quantity'' =
                Inr (JNum (case first_textContent ''quantity''
                                  (document_getElementsByTagName ''book'' xml ! i) of
                             None \<Rightarrow> NaN | Some t \<Rightarrow> Number_string h t)) \<and>
              get_field (records ! i) ''price'' =
                Inr (JNum (case first_textContent ''price''
                                  (document_getElementsByTagName ''book'' xml ! i) of
                             None \<Rightarrow> NaN | Some t \<Rightarrow> parseFloat_string h t)))"
proof -
  let ?books = "document_getElementsByTagName ''book'' xml"
  let ?records = "map (bookNode_record_fn h) ?books"
  have "parseXML_fn h xmlString = Inr (JArr ?records)"
    using assms by (simp add: parseXML_fn_def)
  moreover have "length ?records = length ?books"
    by simp
  moreover have "\<forall>i < length ?records.
      get_field (?records ! i) ''quantity'' =
        Inr (JNum (case first_textContent ''quantity'' (?books ! i) of
                     None \<Rightarrow> NaN | Some t \<Rightarrow> Number_string h t)) \<and>
      get_field (?records ! i) ''price'' =
        Inr (JNum (case first_textContent ''price'' (?books ! i) of
                     None \<Rightarrow> NaN | Some t \<Rightarrow> parseFloat_string h t))"
    by (simp add: bookNode_record_fn_numbers)
  ultimately show ?thesis
    by blast
qed

text \<open>The example document, whose book has a quantity and no price.\<close>

theorem parseXML_fn_coerces_quantity_and_price_witness:
  "DOMParser_parseFromString example_xml_host example_xml = Inr example_document \<and>
   (\<exists>records.
      parseXML_fn example_xml_host example_xml = Inr (JArr records) \<and>
      length records = length (document_getElementsByTagName ''book'' example_document) \<and>
      (\<forall>i < length records.
         get_field (records ! i) ''quantity'' =
           Inr (JNum (case first_textContent ''quantity''
                             (document_getElementsByTagName ''book'' example_document ! i) of
                        None \<Rightarrow> NaN | Some t \<Rightarrow> Number_string example_xml_host t)) \<and>
         get_field (records ! i) ''price'' =
           Inr (JNum (case first_textContent ''price''
                             (document_getElementsByTagName ''book'' example_document ! i) of
                        None \<Rightarrow> NaN | Some t \<Rightarrow> parseFloat_string example_xml_host t))))"
  by (rule conjI [OF example_DOMParser
        parseXML_fn_coerces_quantity_and_price [OF example_DOMParser]])

lemma seven_halves_not_integer: "\<not> is_integer_number (JNum (Finite (7 / 2)))"
  by code_simp

text \<open>
  Claim C3 as stated fails on the example document: the class leaves \<^verbatim>\<open>quantity\<close> the
  string \<^verbatim>\<open>3.5\<close> and \<^verbatim>\<open>price\<close> \<^verbatim>\<open>undefined\<close>, neither a number; and the functional
  module makes the quantity the number 3.5, which is not an integer.
\<close>

theorem parseXML_coercion_counterexample:
  "parseXML example_xml_host example_xml =
     Inr (JArr [JObj [(''title'', JStr ''Histories''), (''author'', JUndefined),
                      (''isbn'', JUndefined), (''quantity'', JStr ''3.5''),
                      (''price'', JUndefined)]]) \<and>
   \<not> is_number (JStr ''3.5'') \<and>
   \<not> is_number JUndefined \<and>
   parseXML_fn example_xml_host example_xml =
     Inr (JArr [JObj [(''title'', JStr ''Histories''), (''author'', JUndefined),
                      (''isbn'', JUndefined), (''quantity'', JNum (Finite (7 / 2))),
                      (''price'', JNum NaN)]]) \<and>
   \<not> is_integer_number (JNum (Finite (7 / 2)))"
  by (simp only: example_parseXML example_parseXML_fn seven_halves_not_integer
        is_number.simps simp_thms)

end
